theory Spec2Isabelle
  imports Complex_Main "HOL-Library.Log_Nat"
begin

section \<open>The stereoscopic view widget of Bino (src/widget.cpp)\<close>

text \<open>
  The widget is modelled by explicit state passing: every member function of the class
  takes the widget's fields as a record and returns the updated record, together with the
  list of OpenGL calls and calls to collaborators it issued, in program order.

  Conventions of the model.
  \<^item> C++ \<open>int\<close> quantities (sizes, view counts, the alternating parity) are \<open>int\<close>; no
    arithmetic is done on them besides comparison and conversion.
  \<^item> C++ \<open>float\<close> (IEEE binary32) and \<open>qreal\<close> (\<open>double\<close>, IEEE binary64) quantities are
    the real numbers they denote, and every conversion and arithmetic operation rounds its
    exact result to the nearest value of the format, ties to even, with gradual underflow
    (\<open>float32\<close>, \<open>float64\<close> below). Overflow to an infinity, NaN, the sign of zero and
    division by zero are outside the model (HOL's \<open>x / 0\<close> is \<open>0\<close>): the statements carry
    the hypotheses that keep a computation away from them.
  \<^item> The two-element arrays \<open>_viewTex\<close>, \<open>_viewTexWidth\<close> and \<open>_viewTexHeight\<close> are
    indexed by the view number \<open>0\<close> (left) or \<open>1\<close> (right).
\<close>

subsection \<open>Floating point arithmetic\<close>

text \<open>Rounding a real number to the nearest integer, a tie going to the even one.\<close>

definition rhe :: "real \<Rightarrow> int" where
  "rhe x = (let f = \<lfloor>x\<rfloor>; r = x - real_of_int f in
            if r < 1 / 2 then f
            else if 1 / 2 < r then f + 1
            else if even f then f else f + 1)"

text \<open>
  Rounding to a binary format with \<open>p\<close> bits of precision whose smallest positive value
  is \<open>2 ^ - s\<close>: the number is scaled by \<open>2 ^ s\<close>, so that the values of the format are
  integers, and rounded to a multiple of the unit in the last place \<open>u\<close> of its binade;
  \<open>u\<close> is \<open>1\<close> throughout the subnormal range and the first normal binade.
\<close>

definition roundTo :: "int \<Rightarrow> nat \<Rightarrow> real \<Rightarrow> real" where
  "roundTo p s x =
     (let y = x * 2 ^ s;
          u = 2 ^ nat (bitlen \<lfloor>\<bar>y\<bar>\<rfloor> - p)
      in real_of_int (rhe (y / u)) * u / 2 ^ s)"

text \<open>Conversion to \<open>float\<close> (24 bits, smallest value \<open>2 ^ - 149\<close>) and to \<open>double\<close>
  (53 bits, smallest value \<open>2 ^ - 1074\<close>).\<close>

definition float32 :: "real \<Rightarrow> real" where
  "float32 x = roundTo 24 149 x"

definition float64 :: "real \<Rightarrow> real" where
  "float64 x = roundTo 53 1074 x"

text \<open>The finite values of type \<open>float\<close> and of type \<open>double\<close>.\<close>

definition isFloat32 :: "real \<Rightarrow> bool" where
  "isFloat32 x \<longleftrightarrow> float32 x = x \<and> \<bar>x\<bar> < 2 ^ 128"

definition isFloat64 :: "real \<Rightarrow> bool" where
  "isFloat64 x \<longleftrightarrow> float64 x = x \<and> \<bar>x\<bar> < 2 ^ 1024"


text \<open>The operations on \<open>float\<close> that the widget uses, the conversion of an \<open>int\<close>, and
  the subtraction of two \<open>qreal\<close> coordinates.\<close>

definition float_of_int :: "int \<Rightarrow> real" where
  "float_of_int i = float32 (real_of_int i)"

definition float_add :: "real \<Rightarrow> real \<Rightarrow> real" where
  "float_add x y = float32 (x + y)"

definition float_mul :: "real \<Rightarrow> real \<Rightarrow> real" where
  "float_mul x y = float32 (x * y)"

definition float_div :: "real \<Rightarrow> real \<Rightarrow> real" where
  "float_div x y = float32 (x / y)"

definition qreal_sub :: "real \<Rightarrow> real \<Rightarrow> real" where
  "qreal_sub x y = float64 (x - y)"

subsection \<open>Data\<close>

text \<open>The enumeration \<open>Widget::StereoMode\<close>, as listed by the switch in \<open>paintGL\<close>.\<close>

datatype StereoMode =
    Mode_Left
  | Mode_Right
  | Mode_Alternating
  | Mode_OpenGL_Stereo
  | Mode_Red_Cyan_Dubois
  | Mode_Red_Cyan_FullColor
  | Mode_Red_Cyan_HalfColor
  | Mode_Red_Cyan_Monochrome
  | Mode_Green_Magenta_Dubois
  | Mode_Green_Magenta_FullColor
  | Mode_Green_Magenta_HalfColor
  | Mode_Green_Magenta_Monochrome
  | Mode_Amber_Blue_Dubois
  | Mode_Amber_Blue_FullColor
  | Mode_Amber_Blue_HalfColor
  | Mode_Amber_Blue_Monochrome
  | Mode_Red_Green_Monochrome
  | Mode_Red_Blue_Monochrome

text \<open>The fields of \<open>Widget\<close> that the member functions read or write.\<close>

record widget =
  stereoMode :: StereoMode
  openGLStereo :: bool
  alternatingLastView :: int
  width :: int
  height :: int
  viewTexWidth :: "nat \<Rightarrow> int"
  viewTexHeight :: "nat \<Rightarrow> int"
  inThreeSixtyMovement :: bool
  threeSixtyMovementStart :: "real \<times> real"
  threeSixtyHorizontalAngleBase :: real
  threeSixtyVerticalAngleBase :: real
  threeSixtyHorizontalAngleCurrent :: real
  threeSixtyVerticalAngleCurrent :: real

text \<open>What \<open>Bino::preRenderProcess\<close> reports about the current frame.\<close>

record frame =
  viewCount :: int
  viewWidth :: int
  viewHeight :: int
  frameDisplayAspectRatio :: real
  threeSixty :: bool

text \<open>The OpenGL context as \<open>initializeGL\<close> queries it.\<close>

record glcontext =
  isValid :: bool
  majorVersion :: int
  minorVersion :: int
  stereo :: bool

datatype TexFormat = GL_RGB10_A2 | GL_RGB16 | GL_RGBA16

datatype DrawBuf = GL_BACK_LEFT | GL_BACK_RIGHT

text \<open>
  The observable calls. \<open>Render v w h cam\<close> is \<open>Bino::render\<close> for view \<open>v\<close>; \<open>cam\<close> holds
  the parameters from which the projection and view matrices are built in 360 degree mode
  (aspect ratio, pitch and yaw of the Euler rotation), and is \<open>None\<close> for the identity
  matrices.
\<close>

datatype event =
    BindTexture nat
  | TexImage2D nat TexFormat int int
  | Render nat int int "(real \<times> real \<times> real) option"
  | GenerateMipmap nat
  | BindDefaultFramebuffer
  | Viewport int int
  | UniformRelativeWidth real
  | UniformRelativeHeight real
  | UniformStereoMode StereoMode
  | DrawBuffer DrawBuf
  | DrawElements
  | Update
  | InitProcess

datatype fatal = InsufficientOpenGL | StereoNotAvailable

subsection \<open>Construction and accessors\<close>

text \<open>
  The constructor initialises the mode, the stereo capability (from the default surface
  format), the parity (to \<open>1\<close>) and the orientation; the other fields keep whatever the
  memory held, here those of \<open>raw\<close>.
\<close>

definition Widget :: "StereoMode \<Rightarrow> bool \<Rightarrow> widget \<Rightarrow> widget" where
  "Widget mode defaultStereo raw =
     raw\<lparr>stereoMode := mode,
         openGLStereo := defaultStereo,
         alternatingLastView := 1,
         inThreeSixtyMovement := False,
         threeSixtyHorizontalAngleBase := 0,
         threeSixtyVerticalAngleBase := 0,
         threeSixtyHorizontalAngleCurrent := 0,
         threeSixtyVerticalAngleCurrent := 0\<rparr>"

definition setStereoMode :: "StereoMode \<Rightarrow> widget \<Rightarrow> widget" where
  "setStereoMode mode st = st\<lparr>stereoMode := mode\<rparr>"

definition resizeGL :: "int \<Rightarrow> int \<Rightarrow> widget \<Rightarrow> widget" where
  "resizeGL w h st = st\<lparr>width := w, height := h\<rparr>"

subsection \<open>initializeGL\<close>

text \<open>
  The two capability checks end the process (\<open>std::exit(1)\<close>) after a message box; that is
  the \<open>Inl\<close> result. Otherwise both view textures are created with size \<open>1 \<times> 1\<close>. The quad
  geometry and the shader program do not influence any other field and are left out.
\<close>

definition contextIsOk :: "glcontext \<Rightarrow> bool" where
  "contextIsOk ctx \<longleftrightarrow> isValid ctx \<and> majorVersion ctx \<ge> 3 \<and> minorVersion ctx \<ge> 2"

definition initViewTex :: "bool \<Rightarrow> nat \<Rightarrow> widget \<Rightarrow> event list \<times> widget" where
  "initViewTex isGLES i st =
     ([BindTexture i, TexImage2D i (if isGLES then GL_RGB10_A2 else GL_RGBA16) 1 1],
      st\<lparr>viewTexWidth := (viewTexWidth st)(i := 1),
         viewTexHeight := (viewTexHeight st)(i := 1)\<rparr>)"

definition initializeGL ::
  "glcontext \<Rightarrow> bool \<Rightarrow> bool \<Rightarrow> widget \<Rightarrow> fatal + (event list \<times> widget)" where
  "initializeGL ctx defaultStereo isGLES st =
     (if \<not> contextIsOk ctx then Inl InsufficientOpenGL
      else if defaultStereo \<and> \<not> stereo ctx then Inl StereoNotAvailable
      else
        let (e0, s0) = initViewTex isGLES 0 st;
            (e1, s1) = initViewTex isGLES 1 s0
        in Inr (e0 @ e1 @ [InitProcess], s1))"

subsection \<open>paintGL\<close>

text \<open>Lines 196 to 199: the mode used for this frame, a local copy of the requested mode.\<close>

definition effectiveMode :: "StereoMode \<Rightarrow> int \<Rightarrow> StereoMode" where
  "effectiveMode requested vc =
     (let frameIsStereo = (vc = 2) in
      if \<not> frameIsStereo then Mode_Left else requested)"

text \<open>The switch of lines 204 to 230: whether view \<open>v\<close> has to be rendered.\<close>

fun needThisView :: "StereoMode \<Rightarrow> int \<Rightarrow> nat \<Rightarrow> bool" where
  "needThisView Mode_Left lastView v = (v = 0)"
| "needThisView Mode_Right lastView v = (v = 1)"
| "needThisView Mode_Alternating lastView v = (int v \<noteq> lastView)"
| "needThisView _ lastView v = True"

text \<open>
  Lines 234 to 242: the view texture is bound, and its storage is allocated anew exactly
  when the stored size differs from the size of the view.
\<close>

definition prepareViewTexture ::
  "bool \<Rightarrow> nat \<Rightarrow> int \<Rightarrow> int \<Rightarrow> widget \<Rightarrow> event list \<times> widget" where
  "prepareViewTexture isGLES v vw vh st =
     (if viewTexWidth st v \<noteq> vw \<or> viewTexHeight st v \<noteq> vh
      then ([BindTexture v, TexImage2D v (if isGLES then GL_RGB10_A2 else GL_RGB16) vw vh],
            st\<lparr>viewTexWidth := (viewTexWidth st)(v := vw),
               viewTexHeight := (viewTexHeight st)(v := vh)\<rparr>)
      else ([BindTexture v], st))"

text \<open>The body of the loop over the views, lines 203 to 263.\<close>

definition fillViewTexture ::
  "bool \<Rightarrow> bool \<Rightarrow> frame \<Rightarrow> StereoMode \<Rightarrow> nat \<Rightarrow> widget \<Rightarrow> event list \<times> widget" where
  "fillViewTexture isGLES assumeThreeSixtyMode fr mode v st =
     (if \<not> needThisView mode (alternatingLastView st) v then ([], st)
      else
        let (es, s) = prepareViewTexture isGLES v (viewWidth fr) (viewHeight fr) st;
            cam = (if assumeThreeSixtyMode
                   then Some (float_div (float_of_int (width s)) (float_of_int (height s)),
                              - float_add (threeSixtyVerticalAngleBase s)
                                  (threeSixtyVerticalAngleCurrent s),
                              - float_add (threeSixtyHorizontalAngleBase s)
                                  (threeSixtyHorizontalAngleCurrent s))
                   else None)
        in (es @ [Render v (viewWidth fr) (viewHeight fr) cam, BindTexture v, GenerateMipmap v], s))"

text \<open>The loop \<open>for (int v = 0; v <= 1; v++)\<close>, run on the list of its indices.\<close>

fun fillViewTextures ::
  "bool \<Rightarrow> bool \<Rightarrow> frame \<Rightarrow> StereoMode \<Rightarrow> nat list \<Rightarrow> widget \<Rightarrow> event list \<times> widget" where
  "fillViewTextures isGLES a360 fr mode [] st = ([], st)"
| "fillViewTextures isGLES a360 fr mode (v # vs) st =
     (let (e, s) = fillViewTexture isGLES a360 fr mode v st;
          (es, s') = fillViewTextures isGLES a360 fr mode vs s
      in (e @ es, s'))"

text \<open>Lines 270 to 276: the relative width and height of the frame on screen.\<close>

definition aspectFit :: "int \<Rightarrow> int \<Rightarrow> real \<Rightarrow> real \<times> real" where
  "aspectFit w h frameAspectRatio =
     (let screenAspectRatio = float_div (float_of_int w) (float_of_int h) in
      if screenAspectRatio < frameAspectRatio
      then (1, float_div screenAspectRatio frameAspectRatio)
      else (float_div frameAspectRatio screenAspectRatio, 1))"

text \<open>Lines 298 and 308: the alternating mode shows the view that was not shown last.\<close>

definition resolveAlternating :: "StereoMode \<Rightarrow> int \<Rightarrow> StereoMode" where
  "resolveAlternating mode lastView =
     (if mode = Mode_Alternating
      then (if lastView = 0 then Mode_Right else Mode_Left)
      else mode)"

text \<open>
  Lines 287 to 311: the draw calls, for a context with or without stereo buffers. Calls
  that carry no data of the widget (\<open>glDisable\<close>, \<open>glUseProgram\<close>, the sampler uniforms,
  \<open>glActiveTexture\<close>, \<open>glBindVertexArray\<close>) are not recorded.
\<close>

definition drawViews :: "bool \<Rightarrow> StereoMode \<Rightarrow> int \<Rightarrow> event list" where
  "drawViews oglStereo mode lastView =
     (if oglStereo then
        (if mode = Mode_OpenGL_Stereo
         then [DrawBuffer GL_BACK_LEFT, UniformStereoMode Mode_Left, DrawElements,
               DrawBuffer GL_BACK_RIGHT, UniformStereoMode Mode_Right, DrawElements]
         else [UniformStereoMode (resolveAlternating mode lastView),
               DrawBuffer GL_BACK_LEFT, DrawElements,
               DrawBuffer GL_BACK_RIGHT, DrawElements])
      else [UniformStereoMode (resolveAlternating mode lastView), DrawElements])"

text \<open>Lines 313 to 317: the parity of the alternating mode, updated after drawing.\<close>

definition updateAlternating :: "bool \<Rightarrow> widget \<Rightarrow> event list \<times> widget" where
  "updateAlternating frameIsStereo st =
     (if stereoMode st = Mode_Alternating \<and> frameIsStereo
      then ([Update],
            st\<lparr>alternatingLastView := (if alternatingLastView st = 0 then 1 else 0)\<rparr>)
      else ([], st))"

definition paintGL :: "bool \<Rightarrow> bool \<Rightarrow> frame \<Rightarrow> widget \<Rightarrow> event list \<times> widget" where
  "paintGL isGLES assumeThreeSixtyMode fr st =
     (let frameIsStereo = (viewCount fr = 2);
          mode = effectiveMode (stereoMode st) (viewCount fr);
          (e1, s1) = fillViewTextures isGLES assumeThreeSixtyMode fr mode [0, 1] st;
          (relWidth, relHeight) = aspectFit (width s1) (height s1) (frameDisplayAspectRatio fr);
          e2 = [BindDefaultFramebuffer, Viewport (width s1) (height s1),
                UniformRelativeWidth relWidth, UniformRelativeHeight relHeight,
                BindTexture 0, BindTexture 1];
          e3 = drawViews (openGLStereo s1) mode (alternatingLastView s1);
          (e4, s4) = updateAlternating frameIsStereo s1
      in (e1 @ e2 @ e3 @ e4, s4))"

subsection \<open>Pointer and playlist events\<close>

definition mousePressEvent :: "real \<times> real \<Rightarrow> widget \<Rightarrow> widget" where
  "mousePressEvent pos st =
     st\<lparr>inThreeSixtyMovement := True,
        threeSixtyMovementStart := pos,
        threeSixtyHorizontalAngleCurrent := 0,
        threeSixtyVerticalAngleCurrent := 0\<rparr>"

definition mouseReleaseEvent :: "widget \<Rightarrow> widget" where
  "mouseReleaseEvent st =
     st\<lparr>inThreeSixtyMovement := False,
        threeSixtyHorizontalAngleBase :=
          float_add (threeSixtyHorizontalAngleBase st) (threeSixtyHorizontalAngleCurrent st),
        threeSixtyVerticalAngleBase :=
          float_add (threeSixtyVerticalAngleBase st) (threeSixtyVerticalAngleCurrent st),
        threeSixtyHorizontalAngleCurrent := 0,
        threeSixtyVerticalAngleCurrent := 0\<rparr>"

text \<open>The fractions \<open>xf\<close> and \<open>yf\<close> of \<open>mouseMoveEvent\<close>, which the source comments as
  lying in \<open>[-1,+1]\<close>.\<close>

definition moveFractions :: "real \<times> real \<Rightarrow> widget \<Rightarrow> real \<times> real" where
  "moveFractions pos st =
     (let posDelta = (qreal_sub (fst pos) (fst (threeSixtyMovementStart st)),
                      qreal_sub (snd pos) (snd (threeSixtyMovementStart st)));
          dx = float32 (fst posDelta);
          xf = float_div dx (float_of_int (width st));
          dy = float32 (snd posDelta);
          yf = float_div dy (float_of_int (height st))
      in (xf, yf))"

definition mouseMoveEvent :: "real \<times> real \<Rightarrow> widget \<Rightarrow> event list \<times> widget" where
  "mouseMoveEvent pos st =
     (if inThreeSixtyMovement st then
        (let (xf, yf) = moveFractions pos st
         in ([Update],
             st\<lparr>threeSixtyHorizontalAngleCurrent := float_mul (- xf) 180,
                threeSixtyVerticalAngleCurrent := float_mul (- yf) 90\<rparr>))
      else ([], st))"

definition mediaChanged :: "widget \<Rightarrow> widget" where
  "mediaChanged st =
     st\<lparr>inThreeSixtyMovement := False,
        threeSixtyHorizontalAngleBase := 0,
        threeSixtyVerticalAngleBase := 0,
        threeSixtyHorizontalAngleCurrent := 0,
        threeSixtyVerticalAngleCurrent := 0\<rparr>"

subsection \<open>Observations on the calls issued\<close>

fun isRenderOf :: "nat \<Rightarrow> event \<Rightarrow> bool" where
  "isRenderOf v (Render v' w h cam) = (v' = v)"
| "isRenderOf v _ = False"

fun isAllocation :: "event \<Rightarrow> bool" where
  "isAllocation (TexImage2D v f w h) = True"
| "isAllocation _ = False"

text \<open>The number of texture allocations among the calls: the counter a test would read.\<close>

definition allocations :: "event list \<Rightarrow> nat" where
  "allocations es = length (filter isAllocation es)"

text \<open>
  Values for the examples: a constructed widget (no stereo buffers) whose view textures
  have the size \<open>1 \<times> 1\<close> that \<open>initializeGL\<close> gives them, resized to \<open>w \<times> h\<close>; a
  stereo frame and a mono frame.
\<close>

definition rawWidget :: widget where
  "rawWidget =
     \<lparr>stereoMode = Mode_Left, openGLStereo = False, alternatingLastView = 0,
      width = 0, height = 0, viewTexWidth = (\<lambda>_. 0), viewTexHeight = (\<lambda>_. 0),
      inThreeSixtyMovement = False, threeSixtyMovementStart = (0, 0),
      threeSixtyHorizontalAngleBase = 0, threeSixtyVerticalAngleBase = 0,
      threeSixtyHorizontalAngleCurrent = 0, threeSixtyVerticalAngleCurrent = 0\<rparr>"

definition shownWidget :: "StereoMode \<Rightarrow> int \<Rightarrow> int \<Rightarrow> widget" where
  "shownWidget mode w h =
     resizeGL w h
       ((Widget mode False rawWidget)
          \<lparr>viewTexWidth := (\<lambda>_. 1), viewTexHeight := (\<lambda>_. 1)\<rparr>)"

definition stereoFrame :: frame where
  "stereoFrame = \<lparr>viewCount = 2, viewWidth = 1920, viewHeight = 1080,
                  frameDisplayAspectRatio = 2, threeSixty = False\<rparr>"

definition monoFrame :: frame where
  "monoFrame = \<lparr>viewCount = 1, viewWidth = 1920, viewHeight = 1080,
                frameDisplayAspectRatio = 2, threeSixty = False\<rparr>"

section \<open>Properties\<close>

subsection \<open>Facts about rounding\<close>










lemma rhe_of_int: "rhe (real_of_int k) = k"
  by (simp add: rhe_def)

lemma roundTo_of_int:
  assumes "\<bar>n\<bar> < 2 ^ nat p"
  shows "roundTo p s (real_of_int n) = real_of_int n"
proof (cases "n = 0")
  case True
  then show ?thesis by (simp add: roundTo_def rhe_def)
next
  case False
  then have pos: "0 < \<bar>n\<bar>" by simp
  have fl: "\<lfloor>\<bar>real_of_int n * 2 ^ s\<bar>\<rfloor> = \<bar>n\<bar> * 2 ^ s"
  proof -
    have "\<bar>real_of_int n * 2 ^ s\<bar> = real_of_int (\<bar>n\<bar> * 2 ^ s)" by (simp add: abs_mult)
    then show ?thesis by (simp only: floor_of_int)
  qed
  have bl: "bitlen (\<bar>n\<bar> * 2 ^ s) = bitlen \<bar>n\<bar> + int s" using pos by (rule bitlen_pow2)
  have "bitlen \<bar>n\<bar> \<le> p"
  proof -
    from assms have "0 \<le> p" by (cases "0 \<le> p") (use pos in simp_all)
    with assms show ?thesis by (simp add: bitlen_le_iff_power)
  qed
  define e where "e = nat (bitlen \<bar>n\<bar> + int s - p)"
  have es: "e \<le> s" using \<open>bitlen \<bar>n\<bar> \<le> p\<close> by (simp add: e_def)
  define c where "c = s - e"
  have ps: "(2::real) ^ s = 2 ^ c * 2 ^ e" using es by (simp add: c_def flip: power_add)
  have val: "roundTo p s (real_of_int n) =
      real_of_int (rhe (real_of_int n * 2 ^ s / 2 ^ e)) * 2 ^ e / 2 ^ s"
    unfolding roundTo_def Let_def fl bl e_def by (rule refl)
  have "real_of_int n * 2 ^ s / 2 ^ e = real_of_int (n * 2 ^ c)" unfolding ps by simp
  then show ?thesis unfolding val by (simp only: rhe_of_int) (simp add: ps)
qed

lemma float32_of_int: "\<bar>n\<bar> < 2 ^ 24 \<Longrightarrow> float32 (real_of_int n) = real_of_int n"
  unfolding float32_def by (rule roundTo_of_int) simp

lemma float64_of_int: "\<bar>n\<bar> < 2 ^ 53 \<Longrightarrow> float64 (real_of_int n) = real_of_int n"
  unfolding float64_def by (rule roundTo_of_int) simp

lemma float32_numeral:
  "numeral k < (2 ^ 24 :: int) \<Longrightarrow> float32 (numeral k) = numeral k"
  "numeral k < (2 ^ 24 :: int) \<Longrightarrow> float32 (- numeral k) = - numeral k"
  "float32 0 = 0" "float32 1 = 1"
  using float32_of_int [of "numeral k"] float32_of_int [of "- numeral k"]
    float32_of_int [of 0] float32_of_int [of 1]
  by simp_all

lemma float64_numeral:
  "numeral k < (2 ^ 53 :: int) \<Longrightarrow> float64 (numeral k) = numeral k"
  "numeral k < (2 ^ 53 :: int) \<Longrightarrow> float64 (- numeral k) = - numeral k"
  "float64 0 = 0" "float64 1 = 1"
  using float64_of_int [of "numeral k"] float64_of_int [of "- numeral k"]
    float64_of_int [of 0] float64_of_int [of 1]
  by simp_all

lemma bitlen_numeral: "bitlen (numeral n) = bitlen (numeral n div 2) + 1"
  by (subst compute_bitlen) simp

lemma bitlen_one: "bitlen 1 = 1"
  by (subst compute_bitlen) simp

text \<open>The rules that evaluate \<open>float32\<close> at a rational number.\<close>

lemmas float32_eval = float32_def roundTo_def rhe_def bitlen_numeral bitlen_one Let_def

subsection \<open>Helper facts about the view loop\<close>

lemma prepareViewTexture_keeps:
  "alternatingLastView (snd (prepareViewTexture g v vw vh st)) = alternatingLastView st"
  "stereoMode (snd (prepareViewTexture g v vw vh st)) = stereoMode st"
  by (simp_all add: prepareViewTexture_def)

lemma prepareViewTexture_no_render:
  "\<not> isRenderOf u e" if "e \<in> set (fst (prepareViewTexture g v vw vh st))"
  using that by (auto simp: prepareViewTexture_def split: if_splits)

lemma fillViewTexture_keeps:
  "alternatingLastView (snd (fillViewTexture g a fr m v st)) = alternatingLastView st"
  "stereoMode (snd (fillViewTexture g a fr m v st)) = stereoMode st"
  using prepareViewTexture_keeps [of g v "viewWidth fr" "viewHeight fr" st]
  by (auto simp: fillViewTexture_def Let_def split: prod.splits)

lemma fillViewTextures_keeps:
  "alternatingLastView (snd (fillViewTextures g a fr m vs st)) = alternatingLastView st \<and>
   stereoMode (snd (fillViewTextures g a fr m vs st)) = stereoMode st"
proof (induction vs arbitrary: st)
  case Nil
  show ?case by simp
next
  case (Cons v vs)
  obtain e s where f: "fillViewTexture g a fr m v st = (e, s)"
    by (cases "fillViewTexture g a fr m v st")
  obtain es s' where g: "fillViewTextures g a fr m vs s = (es, s')"
    by (cases "fillViewTextures g a fr m vs s")
  from fillViewTexture_keeps [of g a fr m v st] f
  have "alternatingLastView s = alternatingLastView st" "stereoMode s = stereoMode st"
    by simp_all
  with Cons.IH [of s] f g show ?case by simp
qed

lemma fillViewTexture_not_needed:
  "\<not> needThisView m (alternatingLastView st) v \<Longrightarrow>
   fillViewTexture g a fr m v st = ([], st)"
  by (simp add: fillViewTexture_def)

lemma fillViewTexture_renders_own_view:
  "e \<in> set (fst (fillViewTexture g a fr m v st)) \<Longrightarrow> isRenderOf u e \<Longrightarrow> u = v"
  using prepareViewTexture_no_render [of e g v "viewWidth fr" "viewHeight fr" st u]
  by (auto simp: fillViewTexture_def Let_def split: if_splits prod.splits)

lemma fillViewTexture_needed_renders:
  "needThisView m (alternatingLastView st) v \<Longrightarrow>
   \<exists>e \<in> set (fst (fillViewTexture g a fr m v st)). isRenderOf v e"
  by (auto simp: fillViewTexture_def Let_def split: prod.splits)

lemma fillViewTextures_two:
  "fillViewTextures g a fr m [0, 1] st =
     (fst (fillViewTexture g a fr m 0 st) @
      fst (fillViewTexture g a fr m 1 (snd (fillViewTexture g a fr m 0 st))),
      snd (fillViewTexture g a fr m 1 (snd (fillViewTexture g a fr m 0 st))))"
  by (simp add: Let_def split: prod.splits)

lemma updateAlternating_events_no_render:
  "e \<in> set (fst (updateAlternating b st)) \<Longrightarrow> \<not> isRenderOf u e"
  by (auto simp: updateAlternating_def split: if_splits)

lemma drawViews_no_render:
  "e \<in> set (drawViews og m l) \<Longrightarrow> \<not> isRenderOf u e"
  by (auto simp: drawViews_def split: if_splits)

text \<open>The calls of \<open>paintGL\<close>, split into the view loop and the rest.\<close>

lemma paintGL_events:
  "\<exists>rest. fst (paintGL g a fr st) =
      fst (fillViewTextures g a fr (effectiveMode (stereoMode st) (viewCount fr)) [0, 1] st) @ rest
    \<and> (\<forall>e \<in> set rest. \<forall>u. \<not> isRenderOf u e)"
proof -
  let ?m = "effectiveMode (stereoMode st) (viewCount fr)"
  obtain e1 s1 where l: "fillViewTextures g a fr ?m [0, 1] st = (e1, s1)"
    by (cases "fillViewTextures g a fr ?m [0, 1] st")
  obtain rw rh where af: "aspectFit (width s1) (height s1) (frameDisplayAspectRatio fr) = (rw, rh)"
    by (cases "aspectFit (width s1) (height s1) (frameDisplayAspectRatio fr)")
  obtain e4 s4 where u: "updateAlternating (viewCount fr = 2) s1 = (e4, s4)"
    by (cases "updateAlternating (viewCount fr = 2) s1")
  let ?rest = "[BindDefaultFramebuffer, Viewport (width s1) (height s1),
                UniformRelativeWidth rw, UniformRelativeHeight rh,
                BindTexture 0, BindTexture 1] @
               drawViews (openGLStereo s1) ?m (alternatingLastView s1) @ e4"
  have "fst (paintGL g a fr st) = e1 @ ?rest"
    using l af u by (simp add: paintGL_def Let_def del: fillViewTextures.simps)
  moreover have "\<forall>e \<in> set ?rest. \<forall>u. \<not> isRenderOf u e"
    using updateAlternating_events_no_render [of _ "viewCount fr = 2" s1] u
          drawViews_no_render [of _ "openGLStereo s1" ?m "alternatingLastView s1"]
    by auto
  ultimately show ?thesis using l by auto
qed

lemma paintGL_state:
  "snd (paintGL g a fr st) =
     snd (updateAlternating (viewCount fr = 2)
       (snd (fillViewTextures g a fr (effectiveMode (stereoMode st) (viewCount fr)) [0, 1] st)))"
  by (simp add: paintGL_def Let_def split: prod.splits)

subsection \<open>The mode selection\<close>

text \<open>
  Claim C1. For every requested stereo mode, when the current frame has one view
  (\<open>viewCount = 1\<close>), the mode used for the frame is \<open>Mode_Left\<close>, the right view is not
  needed, and \<open>paintGL\<close> does not render the right view.
\<close>

theorem mono_frame_uses_left_only:
  assumes "viewCount fr = 1"
  shows "effectiveMode (stereoMode st) (viewCount fr) = Mode_Left
       \<and> \<not> needThisView (effectiveMode (stereoMode st) (viewCount fr)) (alternatingLastView st) 1
       \<and> (\<forall>e \<in> set (fst (paintGL g a fr st)). \<not> isRenderOf 1 e)"
proof -
  from assms have m: "effectiveMode (stereoMode st) (viewCount fr) = Mode_Left"
    by (simp add: effectiveMode_def)
  obtain rest where ev:
      "fst (paintGL g a fr st) = fst (fillViewTextures g a fr Mode_Left [0, 1] st) @ rest"
    and nr: "\<forall>e \<in> set rest. \<forall>u. \<not> isRenderOf u e"
    using paintGL_events [of g a fr st] m by auto
  let ?s0 = "snd (fillViewTexture g a fr Mode_Left 0 st)"
  have "fillViewTexture g a fr Mode_Left 1 ?s0 = ([], ?s0)"
    by (rule fillViewTexture_not_needed) simp
  then have loop: "fst (fillViewTextures g a fr Mode_Left [0, 1] st) =
      fst (fillViewTexture g a fr Mode_Left 0 st)"
    unfolding fillViewTextures_two by simp
  have left: "\<forall>e \<in> set (fst (fillViewTexture g a fr Mode_Left 0 st)). \<not> isRenderOf 1 e"
    using fillViewTexture_renders_own_view [of _ g a fr Mode_Left 0 st 1] by auto
  have "\<forall>e \<in> set (fst (paintGL g a fr st)). \<not> isRenderOf 1 e"
    unfolding ev loop using left nr by auto
  with m show ?thesis by simp
qed

theorem mono_frame_uses_left_only_witness:
  "viewCount monoFrame = 1
   \<and> effectiveMode (stereoMode (shownWidget Mode_Red_Cyan_Dubois 1280 720)) (viewCount monoFrame)
       = Mode_Left
   \<and> \<not> needThisView Mode_Left 1 1
   \<and> filter (isRenderOf 1)
        (fst (paintGL False False monoFrame (shownWidget Mode_Red_Cyan_Dubois 1280 720))) = []"
proof -
  have h: "viewCount monoFrame = 1" by (simp add: monoFrame_def)
  from mono_frame_uses_left_only [OF h, of "shownWidget Mode_Red_Cyan_Dubois 1280 720" False False]
  show ?thesis using h by (simp add: filter_empty_conv)
qed

text \<open>
  Claim C2, as stated: for every requested mode other than \<open>Mode_Alternating\<close> and a
  stereo frame, both views are needed. The requested mode \<open>Mode_Left\<close> refutes it: the
  right view is neither needed nor rendered.
\<close>

theorem stereo_frame_mode_left_counterexample:
  "Mode_Left \<noteq> Mode_Alternating
   \<and> viewCount stereoFrame = 2
   \<and> stereoMode (shownWidget Mode_Left 1280 720) = Mode_Left
   \<and> \<not> needThisView (effectiveMode Mode_Left (viewCount stereoFrame))
         (alternatingLastView (shownWidget Mode_Left 1280 720)) 1
   \<and> filter (isRenderOf 1)
        (fst (paintGL False False stereoFrame (shownWidget Mode_Left 1280 720))) = []"
  by (simp add: stereoFrame_def shownWidget_def Widget_def rawWidget_def resizeGL_def
      effectiveMode_def paintGL_def fillViewTexture_def prepareViewTexture_def
      drawViews_def resolveAlternating_def updateAlternating_def Let_def split: prod.splits)

text \<open>
  Claim C2, amended: for every requested mode other than \<open>Mode_Left\<close>, \<open>Mode_Right\<close> and
  \<open>Mode_Alternating\<close>, and a stereo frame (\<open>viewCount = 2\<close>), both the left and the right
  view are needed, and \<open>paintGL\<close> renders both.
\<close>

theorem stereo_frame_needs_both_views:
  assumes "viewCount fr = 2"
    and "stereoMode st \<noteq> Mode_Left" "stereoMode st \<noteq> Mode_Right"
    and "stereoMode st \<noteq> Mode_Alternating"
  shows "needThisView (effectiveMode (stereoMode st) (viewCount fr)) (alternatingLastView st) 0
       \<and> needThisView (effectiveMode (stereoMode st) (viewCount fr)) (alternatingLastView st) 1
       \<and> (\<exists>e \<in> set (fst (paintGL g a fr st)). isRenderOf 0 e)
       \<and> (\<exists>e \<in> set (fst (paintGL g a fr st)). isRenderOf 1 e)"
proof -
  let ?m = "effectiveMode (stereoMode st) (viewCount fr)"
  from assms have m: "?m = stereoMode st"
    by (simp add: effectiveMode_def)
  from assms(2-4) have need: "needThisView (stereoMode st) l v" for l v
    by (cases "stereoMode st") simp_all
  obtain rest where ev:
      "fst (paintGL g a fr st) = fst (fillViewTextures g a fr (stereoMode st) [0, 1] st) @ rest"
    using paintGL_events [of g a fr st] m by auto
  let ?s0 = "snd (fillViewTexture g a fr (stereoMode st) 0 st)"
  have r0: "\<exists>e \<in> set (fst (fillViewTexture g a fr (stereoMode st) 0 st)). isRenderOf 0 e"
    by (rule fillViewTexture_needed_renders) (rule need)
  have r1: "\<exists>e \<in> set (fst (fillViewTexture g a fr (stereoMode st) 1 ?s0)). isRenderOf 1 e"
    by (rule fillViewTexture_needed_renders) (rule need)
  have "\<exists>e \<in> set (fst (paintGL g a fr st)). isRenderOf 0 e"
    unfolding ev fillViewTextures_two using r0 by auto
  moreover have "\<exists>e \<in> set (fst (paintGL g a fr st)). isRenderOf 1 e"
    unfolding ev fillViewTextures_two using r1 by auto
  ultimately show ?thesis using need m by simp
qed

theorem stereo_frame_needs_both_views_witness:
  "viewCount stereoFrame = 2
   \<and> stereoMode (shownWidget Mode_Amber_Blue_Dubois 1280 720) = Mode_Amber_Blue_Dubois
   \<and> needThisView Mode_Amber_Blue_Dubois 1 0
   \<and> needThisView Mode_Amber_Blue_Dubois 1 1
   \<and> (\<exists>e \<in> set (fst (paintGL False False stereoFrame
                          (shownWidget Mode_Amber_Blue_Dubois 1280 720))). isRenderOf 0 e)
   \<and> (\<exists>e \<in> set (fst (paintGL False False stereoFrame
                          (shownWidget Mode_Amber_Blue_Dubois 1280 720))). isRenderOf 1 e)"
proof -
  have h: "viewCount stereoFrame = 2" by (simp add: stereoFrame_def)
  have s: "stereoMode (shownWidget Mode_Amber_Blue_Dubois 1280 720) = Mode_Amber_Blue_Dubois"
    by (simp add: shownWidget_def Widget_def resizeGL_def)
  have n: "stereoMode (shownWidget Mode_Amber_Blue_Dubois 1280 720) \<noteq> Mode_Left"
    "stereoMode (shownWidget Mode_Amber_Blue_Dubois 1280 720) \<noteq> Mode_Right"
    "stereoMode (shownWidget Mode_Amber_Blue_Dubois 1280 720) \<noteq> Mode_Alternating"
    by (simp_all add: s)
  from stereo_frame_needs_both_views [OF h n, of False False]
  show ?thesis using h s by simp
qed

subsection \<open>The parity of the alternating mode\<close>

text \<open>
  Claim C3. In every call of \<open>paintGL\<close> the parity \<open>alternatingLastView\<close> flips exactly
  once when the requested mode is \<open>Mode_Alternating\<close> and the frame is stereo
  (\<open>viewCount = 2\<close>): \<open>0\<close> becomes \<open>1\<close> and \<open>1\<close> becomes \<open>0\<close>. In every other case it is
  unchanged. The loop that decides and fills the needed views never changes it.
\<close>

theorem alternating_parity_flips_once:
  "alternatingLastView (snd (paintGL g a fr st)) =
     (if stereoMode st = Mode_Alternating \<and> viewCount fr = 2
      then (if alternatingLastView st = 0 then 1 else 0)
      else alternatingLastView st)
   \<and> (stereoMode st = Mode_Alternating \<and> viewCount fr = 2 \<and> alternatingLastView st \<in> {0, 1}
        \<longrightarrow> alternatingLastView (snd (paintGL g a fr st)) = 1 - alternatingLastView st)
   \<and> alternatingLastView
        (snd (fillViewTextures g a fr (effectiveMode (stereoMode st) (viewCount fr)) [0, 1] st))
       = alternatingLastView st"
proof -
  obtain s1 where s1:
    "s1 = snd (fillViewTextures g a fr (effectiveMode (stereoMode st) (viewCount fr)) [0, 1] st)"
    by simp
  have k: "alternatingLastView s1 = alternatingLastView st" "stereoMode s1 = stereoMode st"
    unfolding s1
    using fillViewTextures_keeps
      [of g a fr "effectiveMode (stereoMode st) (viewCount fr)" "[0, 1]" st]
    by blast+
  have p: "snd (paintGL g a fr st) = snd (updateAlternating (viewCount fr = 2) s1)"
    unfolding s1 by (rule paintGL_state)
  have step: "alternatingLastView (snd (paintGL g a fr st)) =
     (if stereoMode st = Mode_Alternating \<and> viewCount fr = 2
      then (if alternatingLastView st = 0 then 1 else 0)
      else alternatingLastView st)"
    unfolding p by (simp add: updateAlternating_def k)
  have flip: "stereoMode st = Mode_Alternating \<and> viewCount fr = 2
        \<and> alternatingLastView st \<in> {0, 1}
      \<longrightarrow> alternatingLastView (snd (paintGL g a fr st)) = 1 - alternatingLastView st"
    unfolding step by auto
  from step flip k(1) [unfolded s1] show ?thesis by blast
qed

theorem alternating_parity_flips_once_witness:
  "alternatingLastView (shownWidget Mode_Alternating 1280 720) = 1
   \<and> alternatingLastView
       (snd (paintGL False False stereoFrame (shownWidget Mode_Alternating 1280 720))) = 0
   \<and> alternatingLastView
       (snd (paintGL False False monoFrame (shownWidget Mode_Alternating 1280 720))) = 1
   \<and> alternatingLastView
       (snd (paintGL False False stereoFrame (shownWidget Mode_Right 1280 720))) = 1"
proof -
  have s: "alternatingLastView (shownWidget m 1280 720) = 1"
    "stereoMode (shownWidget m 1280 720) = m" for m
    by (simp_all add: shownWidget_def Widget_def resizeGL_def)
  have v: "viewCount stereoFrame = 2" "viewCount monoFrame = 1"
    by (simp_all add: stereoFrame_def monoFrame_def)
  show ?thesis
    using alternating_parity_flips_once
            [of False False stereoFrame "shownWidget Mode_Alternating 1280 720"]
          alternating_parity_flips_once
            [of False False monoFrame "shownWidget Mode_Alternating 1280 720"]
          alternating_parity_flips_once
            [of False False stereoFrame "shownWidget Mode_Right 1280 720"]
    by (simp add: s v)
qed

text \<open>
  Claim C10. \<open>paintGL\<close> never changes the requested stereo mode: forcing \<open>Mode_Left\<close> for a
  mono frame and resolving \<open>Mode_Alternating\<close> to an eye act on the local copy only.
  \<open>setStereoMode\<close> is what stores a new requested mode.
\<close>

theorem paintGL_keeps_requested_mode:
  "stereoMode (snd (paintGL g a fr st)) = stereoMode st
   \<and> stereoMode (setStereoMode m st) = m"
proof -
  obtain s1 where s1:
    "s1 = snd (fillViewTextures g a fr (effectiveMode (stereoMode st) (viewCount fr)) [0, 1] st)"
    by simp
  have k: "stereoMode s1 = stereoMode st"
    unfolding s1
    using fillViewTextures_keeps
      [of g a fr "effectiveMode (stereoMode st) (viewCount fr)" "[0, 1]" st]
    by blast
  have p: "snd (paintGL g a fr st) = snd (updateAlternating (viewCount fr = 2) s1)"
    unfolding s1 by (rule paintGL_state)
  have "stereoMode (snd (paintGL g a fr st)) = stereoMode st"
    unfolding p by (simp add: updateAlternating_def k)
  then show ?thesis by (simp add: setStereoMode_def)
qed

theorem paintGL_keeps_requested_mode_witness:
  "stereoMode (snd (paintGL False False monoFrame (shownWidget Mode_Alternating 1280 720)))
     = Mode_Alternating
   \<and> stereoMode (setStereoMode Mode_Right (shownWidget Mode_Alternating 1280 720)) = Mode_Right"
  using paintGL_keeps_requested_mode
          [of False False monoFrame "shownWidget Mode_Alternating 1280 720" Mode_Right]
  by (simp add: shownWidget_def Widget_def resizeGL_def)

subsection \<open>The view textures\<close>

text \<open>
  Claim C7. Preparing a view texture allocates storage, and updates the stored size, if
  and only if the requested width or height differs from the stored one. Afterwards the
  stored size is the requested one, so a second call with the same size allocates nothing
  and leaves the state as it is.
\<close>

theorem prepareViewTexture_idempotent:
  "(allocations (fst (prepareViewTexture g v w h st)) = 1
      \<longleftrightarrow> viewTexWidth st v \<noteq> w \<or> viewTexHeight st v \<noteq> h)
   \<and> (allocations (fst (prepareViewTexture g v w h st)) = 0
      \<longleftrightarrow> viewTexWidth st v = w \<and> viewTexHeight st v = h)
   \<and> (snd (prepareViewTexture g v w h st) \<noteq> st
      \<longleftrightarrow> viewTexWidth st v \<noteq> w \<or> viewTexHeight st v \<noteq> h)
   \<and> viewTexWidth (snd (prepareViewTexture g v w h st)) v = w
   \<and> viewTexHeight (snd (prepareViewTexture g v w h st)) v = h
   \<and> allocations (fst (prepareViewTexture g v w h (snd (prepareViewTexture g v w h st)))) = 0
   \<and> snd (prepareViewTexture g v w h (snd (prepareViewTexture g v w h st)))
       = snd (prepareViewTexture g v w h st)"
proof -
  let ?s = "snd (prepareViewTexture g v w h st)"
  have dims: "viewTexWidth ?s v = w" "viewTexHeight ?s v = h"
    by (simp_all add: prepareViewTexture_def)
  have again: "prepareViewTexture g v w h ?s = ([BindTexture v], ?s)"
    using dims by (simp add: prepareViewTexture_def)
  have changed: "?s \<noteq> st" if "viewTexWidth st v \<noteq> w \<or> viewTexHeight st v \<noteq> h"
    using that dims by auto
  have same: "?s = st" if "viewTexWidth st v = w \<and> viewTexHeight st v = h"
    using that by (simp add: prepareViewTexture_def)
  have a1: "allocations (fst (prepareViewTexture g v w h st)) = 1
      \<longleftrightarrow> viewTexWidth st v \<noteq> w \<or> viewTexHeight st v \<noteq> h"
    by (simp add: prepareViewTexture_def allocations_def)
  have a0: "allocations (fst (prepareViewTexture g v w h st)) = 0
      \<longleftrightarrow> viewTexWidth st v = w \<and> viewTexHeight st v = h"
    by (simp add: prepareViewTexture_def allocations_def)
  have a2: "allocations (fst (prepareViewTexture g v w h ?s)) = 0"
    by (simp add: again allocations_def)
  from a1 a0 a2 dims again changed same show ?thesis by auto
qed

theorem prepareViewTexture_idempotent_witness:
  "viewTexWidth (shownWidget Mode_Left 1280 720) 0 \<noteq> 1920
   \<and> allocations (fst (prepareViewTexture False 0 1920 1080 (shownWidget Mode_Left 1280 720))) = 1
   \<and> allocations (fst (prepareViewTexture False 0 1920 1080
        (snd (prepareViewTexture False 0 1920 1080 (shownWidget Mode_Left 1280 720))))) = 0
   \<and> viewTexWidth (snd (prepareViewTexture False 0 1920 1080 (shownWidget Mode_Left 1280 720))) 0
       = 1920"
proof -
  have d: "viewTexWidth (shownWidget Mode_Left 1280 720) 0 = 1"
    by (simp add: shownWidget_def Widget_def resizeGL_def)
  show ?thesis
    using prepareViewTexture_idempotent [of False 0 1920 1080 "shownWidget Mode_Left 1280 720"]
    by (simp add: d)
qed

subsection \<open>The orientation in 360 degree mode\<close>

text \<open>
  Claim C6. \<open>mediaChanged\<close>, called in any state, also while a gesture is active, sets the
  four orientation angles (base and current, horizontal and vertical) to zero and clears
  the flag of the active gesture.
\<close>

theorem mediaChanged_resets_orientation:
  "threeSixtyHorizontalAngleBase (mediaChanged st) = 0
   \<and> threeSixtyVerticalAngleBase (mediaChanged st) = 0
   \<and> threeSixtyHorizontalAngleCurrent (mediaChanged st) = 0
   \<and> threeSixtyVerticalAngleCurrent (mediaChanged st) = 0
   \<and> inThreeSixtyMovement (mediaChanged st) = False"
  by (simp add: mediaChanged_def)

theorem mediaChanged_resets_orientation_witness:
  "inThreeSixtyMovement
       (snd (mouseMoveEvent (250, 100) (mousePressEvent (0, 0) (shownWidget Mode_Left 1000 1000))))
   \<and> threeSixtyHorizontalAngleCurrent
       (snd (mouseMoveEvent (250, 100) (mousePressEvent (0, 0) (shownWidget Mode_Left 1000 1000))))
       = - 45
   \<and> threeSixtyHorizontalAngleCurrent (mediaChanged
       (snd (mouseMoveEvent (250, 100) (mousePressEvent (0, 0) (shownWidget Mode_Left 1000 1000)))))
       = 0
   \<and> inThreeSixtyMovement (mediaChanged
       (snd (mouseMoveEvent (250, 100) (mousePressEvent (0, 0) (shownWidget Mode_Left 1000 1000)))))
       = False"
proof -
  let ?s = "snd (mouseMoveEvent (250, 100)
                  (mousePressEvent (0, 0) (shownWidget Mode_Left 1000 1000)))"
  have q: "float32 (1 / 4) = 1 / 4"
    by (simp add: float32_eval)
  have "inThreeSixtyMovement ?s" "threeSixtyHorizontalAngleCurrent ?s = - 45"
    by (simp_all add: mouseMoveEvent_def mousePressEvent_def moveFractions_def shownWidget_def
        Widget_def resizeGL_def Let_def qreal_sub_def float_of_int_def float_div_def
        float_mul_def float32_numeral float64_numeral q)
  with mediaChanged_resets_orientation [of ?s] show ?thesis by simp
qed

text \<open>
  Claim C4, as stated: pressing at \<open>p\<close>, moving to \<open>p + (dx, dy)\<close> and releasing adds exactly
  \<open>(- dx / width * 180, - dy / height * 90)\<close> to the base angles. The angles are of type
  \<open>float\<close>: in a widget of size 1000 by 1000 with base angles \<open>0\<close>, a press at \<open>(0, 0)\<close>
  and a move to \<open>(1, 1)\<close> commit the horizontal angle \<open>- 3019899 / 16777216\<close>, which is not
  \<open>- 1 / 1000 * 180\<close>.
\<close>

theorem drag_cycle_exact_counterexample:
  "width (shownWidget Mode_Left 1000 1000) \<noteq> 0
   \<and> height (shownWidget Mode_Left 1000 1000) \<noteq> 0
   \<and> threeSixtyHorizontalAngleBase (shownWidget Mode_Left 1000 1000) = 0
   \<and> threeSixtyHorizontalAngleBase
        (mouseReleaseEvent (snd (mouseMoveEvent (0 + 1, 0 + 1)
           (mousePressEvent (0, 0) (shownWidget Mode_Left 1000 1000)))))
       = - 3019899 / 16777216
   \<and> threeSixtyHorizontalAngleBase
        (mouseReleaseEvent (snd (mouseMoveEvent (0 + 1, 0 + 1)
           (mousePressEvent (0, 0) (shownWidget Mode_Left 1000 1000)))))
       \<noteq> threeSixtyHorizontalAngleBase (shownWidget Mode_Left 1000 1000)
           + (- 1 / real_of_int (width (shownWidget Mode_Left 1000 1000)) * 180)"
proof -
  have x: "float32 (1 / 1000) = 8589935 / 8589934592"
    by (simp add: float32_eval)
  have c: "float32 (- (8589935 / 8589934592) * 180) = - 3019899 / 16777216"
    by (simp add: float32_eval)
  have b: "float32 (- 3019899 / 16777216) = - 3019899 / 16777216"
    by (simp add: float32_eval)
  show ?thesis
    using c b
    by (simp add: mouseReleaseEvent_def mouseMoveEvent_def mousePressEvent_def moveFractions_def
        shownWidget_def Widget_def resizeGL_def rawWidget_def Let_def
        qreal_sub_def float_of_int_def float_div_def float_mul_def float_add_def
        float32_numeral float64_numeral x)
qed

text \<open>
  Claim C4, amended: for every drawable size (width and height not zero) and every pointer
  displacement \<open>(dx, dy)\<close> between two positions of type \<open>qreal\<close>, from every state whose base
  angles are values of type \<open>float\<close>, pressing at \<open>p\<close>, moving to \<open>p + (dx, dy)\<close> and
  releasing sets each
  base angle to the single precision sum of its old value and the single precision value
  of \<open>- dx / width * 180\<close>, respectively \<open>- dy / height * 90\<close>, every operation rounded to
  the nearest \<open>float\<close> as the code computes it (the difference of the positions in double
  precision, its conversion to \<open>float\<close>, the division by the converted size, the product,
  the sum); it leaves both current angles at zero and clears the flag of the active
  gesture. Displacements and base angles are bounded by \<open>2 ^ 64\<close>, so that nothing
  overflows. For width 1000 and \<open>dx = 250\<close> from base \<open>0\<close> no operation rounds and the
  committed angle is \<open>- 45\<close>.
\<close>

theorem drag_cycle_commits_rounded_angles:
  assumes "width st \<noteq> 0" and "height st \<noteq> 0"
    and "isFloat64 px" and "isFloat64 py"
    and "isFloat64 (px + dx)" and "isFloat64 (py + dy)"
    and "\<bar>dx\<bar> \<le> 2 ^ 64" and "\<bar>dy\<bar> \<le> 2 ^ 64"
    and "isFloat32 (threeSixtyHorizontalAngleBase st)"
    and "isFloat32 (threeSixtyVerticalAngleBase st)"
    and "\<bar>threeSixtyHorizontalAngleBase st\<bar> \<le> 2 ^ 64"
    and "\<bar>threeSixtyVerticalAngleBase st\<bar> \<le> 2 ^ 64"
  shows "threeSixtyHorizontalAngleBase
           (mouseReleaseEvent (snd (mouseMoveEvent (px + dx, py + dy) (mousePressEvent (px, py) st))))
         = float_add (threeSixtyHorizontalAngleBase st)
             (float_mul (- float_div (float32 (float64 dx)) (float_of_int (width st))) 180)
       \<and> threeSixtyVerticalAngleBase
           (mouseReleaseEvent (snd (mouseMoveEvent (px + dx, py + dy) (mousePressEvent (px, py) st))))
         = float_add (threeSixtyVerticalAngleBase st)
             (float_mul (- float_div (float32 (float64 dy)) (float_of_int (height st))) 90)
       \<and> threeSixtyHorizontalAngleCurrent
           (mouseReleaseEvent (snd (mouseMoveEvent (px + dx, py + dy) (mousePressEvent (px, py) st))))
         = 0
       \<and> threeSixtyVerticalAngleCurrent
           (mouseReleaseEvent (snd (mouseMoveEvent (px + dx, py + dy) (mousePressEvent (px, py) st))))
         = 0
       \<and> inThreeSixtyMovement
           (mouseReleaseEvent (snd (mouseMoveEvent (px + dx, py + dy) (mousePressEvent (px, py) st))))
         = False"
  by (simp add: mouseReleaseEvent_def mouseMoveEvent_def mousePressEvent_def moveFractions_def
      qreal_sub_def Let_def)

theorem drag_cycle_commits_rounded_angles_witness:
  "width (shownWidget Mode_Left 1000 1000) \<noteq> 0
   \<and> height (shownWidget Mode_Left 1000 1000) \<noteq> 0
   \<and> isFloat64 7 \<and> isFloat64 3 \<and> isFloat64 (7 + 250) \<and> isFloat64 (3 + 100)
   \<and> \<bar>250 :: real\<bar> \<le> 2 ^ 64
   \<and> \<bar>100 :: real\<bar> \<le> 2 ^ 64
   \<and> isFloat32 (threeSixtyHorizontalAngleBase (shownWidget Mode_Left 1000 1000))
   \<and> isFloat32 (threeSixtyVerticalAngleBase (shownWidget Mode_Left 1000 1000))
   \<and> threeSixtyHorizontalAngleBase (shownWidget Mode_Left 1000 1000) = 0
   \<and> threeSixtyVerticalAngleBase (shownWidget Mode_Left 1000 1000) = 0
   \<and> threeSixtyHorizontalAngleBase
        (mouseReleaseEvent (snd (mouseMoveEvent (7 + 250, 3 + 100)
           (mousePressEvent (7, 3) (shownWidget Mode_Left 1000 1000))))) = - 45
   \<and> threeSixtyVerticalAngleBase
        (mouseReleaseEvent (snd (mouseMoveEvent (7 + 250, 3 + 100)
           (mousePressEvent (7, 3) (shownWidget Mode_Left 1000 1000))))) = - 9
   \<and> threeSixtyHorizontalAngleCurrent
        (mouseReleaseEvent (snd (mouseMoveEvent (7 + 250, 3 + 100)
           (mousePressEvent (7, 3) (shownWidget Mode_Left 1000 1000))))) = 0"
proof -
  have w: "width (shownWidget Mode_Left 1000 1000) = 1000"
    "height (shownWidget Mode_Left 1000 1000) = 1000"
    "threeSixtyHorizontalAngleBase (shownWidget Mode_Left 1000 1000) = 0"
    "threeSixtyVerticalAngleBase (shownWidget Mode_Left 1000 1000) = 0"
    by (simp_all add: shownWidget_def Widget_def resizeGL_def rawWidget_def)
  have h: "width (shownWidget Mode_Left 1000 1000) \<noteq> 0"
    "height (shownWidget Mode_Left 1000 1000) \<noteq> 0"
    "isFloat64 7" "isFloat64 3" "isFloat64 (7 + 250)" "isFloat64 (3 + 100)"
    "\<bar>250 :: real\<bar> \<le> 2 ^ 64" "\<bar>100 :: real\<bar> \<le> 2 ^ 64"
    "isFloat32 (threeSixtyHorizontalAngleBase (shownWidget Mode_Left 1000 1000))"
    "isFloat32 (threeSixtyVerticalAngleBase (shownWidget Mode_Left 1000 1000))"
    "\<bar>threeSixtyHorizontalAngleBase (shownWidget Mode_Left 1000 1000)\<bar> \<le> 2 ^ 64"
    "\<bar>threeSixtyVerticalAngleBase (shownWidget Mode_Left 1000 1000)\<bar> \<le> 2 ^ 64"
    by (simp_all add: w isFloat64_def isFloat32_def float32_numeral float64_numeral)
  have q: "float32 (1 / 4) = 1 / 4" "float32 (1 / 10) = 13421773 / 134217728"
    by (simp_all add: float32_eval)
  have m: "float32 (- (13421773 / 134217728) * 90) = - 9"
    by (simp add: float32_eval)
  from drag_cycle_commits_rounded_angles [OF h]
  show ?thesis
    using m h
    by (simp add: w float_of_int_def float_div_def float_mul_def float_add_def
        float32_numeral float64_numeral q)
qed

text \<open>
  Claim C9 says that the fractions computed by \<open>mouseMoveEvent\<close> lie in \<open>[-1, +1]\<close>, as the
  comments of the source say, so that the current angles lie in \<open>[-180, +180]\<close> and
  \<open>[-90, +90]\<close>. The code divides the displacement by the size and does not clamp: in a
  widget of size 100 by 100, a press at \<open>(0, 0)\<close> followed by a move to \<open>(250, 0)\<close>, a
  position the pointer reaches while the button is held, gives the fraction \<open>5/2\<close> and the
  horizontal angle \<open>-450\<close> (no operation rounds at this input).
\<close>

theorem drag_beyond_widget_exceeds_range:
  "inThreeSixtyMovement (mousePressEvent (0, 0) (shownWidget Mode_Left 100 100))
   \<and> moveFractions (250, 0) (mousePressEvent (0, 0) (shownWidget Mode_Left 100 100)) = (5 / 2, 0)
   \<and> \<not> fst (moveFractions (250, 0) (mousePressEvent (0, 0) (shownWidget Mode_Left 100 100))) \<le> 1
   \<and> threeSixtyHorizontalAngleCurrent
        (snd (mouseMoveEvent (250, 0) (mousePressEvent (0, 0) (shownWidget Mode_Left 100 100))))
       = - 450
   \<and> \<not> - 180 \<le> threeSixtyHorizontalAngleCurrent
        (snd (mouseMoveEvent (250, 0) (mousePressEvent (0, 0) (shownWidget Mode_Left 100 100))))"
proof -
  have q: "float32 (5 / 2) = 5 / 2"
    by (simp add: float32_eval)
  show ?thesis
    by (simp add: mouseMoveEvent_def mousePressEvent_def moveFractions_def shownWidget_def
        Widget_def resizeGL_def Let_def qreal_sub_def float_of_int_def float_div_def
        float_mul_def float32_numeral float64_numeral q)
qed

subsection \<open>The aspect ratio on screen\<close>








subsection \<open>The capability checks of initializeGL\<close>

text \<open>
  Claim C8 says that \<open>initializeGL\<close> does not exit for a valid context of version at
  least 3.2, in the ordering of versions, which includes 4.0 and 4.1. The code compares
  the major and the minor number separately (\<open>major \<ge> 3\<close> and \<open>minor \<ge> 2\<close>), so a valid
  context of version 4.0 or 4.1 takes the exit for insufficient capabilities, with no
  stereo buffers requested.
\<close>

theorem initializeGL_rejects_version_4_0:
  "initializeGL \<lparr>isValid = True, majorVersion = 4, minorVersion = 0, stereo = False\<rparr>
       False isGLES st = Inl InsufficientOpenGL
   \<and> initializeGL \<lparr>isValid = True, majorVersion = 4, minorVersion = 1, stereo = False\<rparr>
       False isGLES st = Inl InsufficientOpenGL
   \<and> isl (initializeGL \<lparr>isValid = True, majorVersion = 3, minorVersion = 2, stereo = False\<rparr>
       False isGLES st) = False"
  by (simp add: initializeGL_def contextIsOk_def initViewTex_def)

end
